theory Spec2Isabelle
  imports Complex_Main
begin

section \<open>The allocation engine of the Global Investment Simulator\<close>

text \<open>
  A shallow embedding of the function \<open>autoAllocate\<close> of \<open>src/App.tsx\<close> (lines 36-136).
  JavaScript numbers are read as real numbers with exact arithmetic: rounding of IEEE
  doubles, \<open>NaN\<close> and the infinities have no counterpart here. Lines 44-55 are
  modelled a second time with every sum and difference rounded to a double, for the
  divisor of the normalization.
\<close>

subsection \<open>Data model (lines 9-31)\<close>

datatype Risk = Conservative | Moderate | Aggressive | ModerateAggressive

datatype Currency = USD | INR

datatype RebalFreq = Quarterly | Annual

text \<open>
  The field \<open>regionSplit\<close> is the text \<open>"60|40"\<close> in the source, and line 58 reads the two
  numbers out of it with \<open>split("|").map(parseFloat)\<close>. The record holds the two numbers
  read: the USA share first, the India share second.
\<close>

record Inputs =
  budget :: real
  horizon :: real
  risk :: Risk
  regionSplit :: "real \<times> real"
  currency :: Currency
  includeGold :: bool
  includeCrypto :: bool
  cryptoCapPct :: real
  rebalFreq :: RebalFreq

datatype RiskTier = Low | Medium | High | VeryHigh

text \<open>
  The row's field \<open>risk\<close> of the source is \<open>riskTier\<close> here, since \<open>risk\<close> is already the
  field of \<open>Inputs\<close>.
\<close>

record AllocationRow =
  assetClass :: string
  instrument :: string
  country :: string
  pct :: real
  expCagr :: "real \<times> real"
  riskTier :: RiskTier
  rationale :: string

text \<open>The object \<open>base\<close> of line 44, one number for each of its six keys.\<close>

record Weights =
  equity :: real
  fixed :: real
  gold :: real
  reits :: real
  cash :: real
  crypto :: real

record Sector =
  name :: string
  tilt :: real
  instr :: string

subsection \<open>Category weights (lines 37-56)\<close>

fun profiles :: "Risk \<Rightarrow> Weights" where
  "profiles Conservative =
     \<lparr>equity = 35, fixed = 45, gold = 12, reits = 4, cash = 4, crypto = 0\<rparr>"
| "profiles Moderate =
     \<lparr>equity = 60, fixed = 25, gold = 8, reits = 5, cash = 2, crypto = 0\<rparr>"
| "profiles ModerateAggressive =
     \<lparr>equity = 70, fixed = 15, gold = 7, reits = 5, cash = 1, crypto = 2\<rparr>"
| "profiles Aggressive =
     \<lparr>equity = 80, fixed = 8, gold = 5, reits = 5, cash = 0, crypto = 2\<rparr>"

text \<open>Lines 45-46.\<close>

definition horizonTilt :: "Inputs \<Rightarrow> Weights \<Rightarrow> Weights" where
  "horizonTilt i base =
     (if horizon i \<ge> 10 then base\<lparr>equity := equity base + 5, fixed := fixed base - 5\<rparr>
      else if horizon i \<le> 3 then base\<lparr>equity := equity base - 10, fixed := fixed base + 10\<rparr>
      else base)"

text \<open>Line 48.\<close>

definition goldOptOut :: "Inputs \<Rightarrow> Weights \<Rightarrow> Weights" where
  "goldOptOut i base =
     (if \<not> includeGold i then base\<lparr>fixed := fixed base + gold base, gold := 0\<rparr> else base)"

text \<open>Line 49.\<close>

definition cryptoOptOut :: "Inputs \<Rightarrow> Weights \<Rightarrow> Weights" where
  "cryptoOptOut i base =
     (if \<not> includeCrypto i then base\<lparr>equity := equity base + crypto base, crypto := 0\<rparr>
      else base)"

text \<open>Lines 50-53.\<close>

definition cryptoCap :: "Inputs \<Rightarrow> Weights \<Rightarrow> Weights" where
  "cryptoCap i base =
     (if includeCrypto i \<and> crypto base > cryptoCapPct i then
        (let diff = crypto base - cryptoCapPct i
         in base\<lparr>equity := equity base + diff, crypto := cryptoCapPct i\<rparr>)
      else base)"

text \<open>The weights as they stand when line 55 is reached.\<close>

definition adjusted :: "Inputs \<Rightarrow> Weights" where
  "adjusted i = cryptoCap i (cryptoOptOut i (goldOptOut i (horizonTilt i (profiles (risk i)))))"

text \<open>Line 55; \<open>base.crypto || 0\<close> replaces a zero by zero.\<close>

definition weightSum :: "Weights \<Rightarrow> real" where
  "weightSum base =
     equity base + fixed base + gold base + reits base + cash base
       + (if crypto base = 0 then 0 else crypto base)"

text \<open>Line 56: every key is divided by the sum taken before the loop.\<close>

definition normalize :: "Weights \<Rightarrow> Weights" where
  "normalize base =
     (let sum = weightSum base
      in \<lparr>equity = (equity base / sum) * 100, fixed = (fixed base / sum) * 100,
          gold = (gold base / sum) * 100, reits = (reits base / sum) * 100,
          cash = (cash base / sum) * 100, crypto = (crypto base / sum) * 100\<rparr>)"

subsection \<open>Line items (lines 58-127)\<close>

definition sectorTiltUSA :: "Sector list" where
  "sectorTiltUSA =
     [\<lparr>name = ''Broad Market'', tilt = 55, instr = ''S&P 500 ETF (VOO)''\<rparr>,
      \<lparr>name = ''Technology/AI'', tilt = 20, instr = ''Nasdaq 100 (QQQ)''\<rparr>,
      \<lparr>name = ''Healthcare'', tilt = 10, instr = ''Healthcare ETF (XLV)''\<rparr>,
      \<lparr>name = ''Energy'', tilt = 8, instr = ''Energy ETF (XLE)''\<rparr>,
      \<lparr>name = ''Industrials'', tilt = 7, instr = ''Industrials ETF (XLI)''\<rparr>]"

definition sectorTiltIND :: "Sector list" where
  "sectorTiltIND =
     [\<lparr>name = ''Broad Market'', tilt = 55, instr = ''Nifty 50 ETF''\<rparr>,
      \<lparr>name = ''Midcap Growth'', tilt = 20, instr = ''Nifty Midcap 150''\<rparr>,
      \<lparr>name = ''Financials'', tilt = 10, instr = ''Bank Nifty ETF''\<rparr>,
      \<lparr>name = ''Manufacturing/Infra'', tilt = 10, instr = ''CPSE/Infra ETF''\<rparr>,
      \<lparr>name = ''Export-Tech'', tilt = 5, instr = ''IT Services ETF''\<rparr>]"

text \<open>\<open>String.prototype.includes\<close>: the second text occurs somewhere in the first.\<close>

fun includesStr :: "string \<Rightarrow> string \<Rightarrow> bool" where
  "includesStr [] t = (t = [])"
| "includesStr (c # cs) t = (take (length t) (c # cs) = t \<or> includesStr cs t)"

text \<open>The closure \<open>push\<close> of lines 76-84 builds one row; the rows are collected in order.\<close>

definition push ::
  "string \<Rightarrow> string \<Rightarrow> string \<Rightarrow> real \<Rightarrow> real \<times> real \<Rightarrow> RiskTier \<Rightarrow> string \<Rightarrow> AllocationRow"
where
  "push ac ins co p ex rk ra =
     \<lparr>assetClass = ac, instrument = ins, country = co, pct = p, expCagr = ex,
      riskTier = rk, rationale = ra\<rparr>"

text \<open>Lines 89-94, the body of the first \<open>forEach\<close>.\<close>

definition equityRowUSA :: "real \<Rightarrow> Sector \<Rightarrow> AllocationRow" where
  "equityRowUSA equityUSA s =
     (let p = (equityUSA * tilt s) / 100;
          ex = (if name s = ''Technology/AI'' then (9, 12) else (7, 10));
          rk = (if name s = ''Technology/AI'' then High else Medium)
      in push ''Equity'' (instr s) ''USA'' p ex rk (''Sector tilt: '' @ name s))"

text \<open>Lines 95-100, the body of the second \<open>forEach\<close>.\<close>

definition equityRowIND :: "real \<Rightarrow> Sector \<Rightarrow> AllocationRow" where
  "equityRowIND equityIND s =
     (let p = (equityIND * tilt s) / 100;
          ex = (if includesStr (name s) ''Midcap'' then (11, 14) else (8, 12));
          rk = (if includesStr (name s) ''Midcap'' then High else Medium)
      in push ''Equity'' (instr s) ''India'' p ex rk (''Sector tilt: '' @ name s))"

text \<open>A row that is pushed only under a condition (lines 104-126).\<close>

definition pushIf :: "bool \<Rightarrow> AllocationRow \<Rightarrow> AllocationRow list" where
  "pushIf c r = (if c then [r] else [])"

text \<open>The array \<open>rows\<close> when line 128 is reached, from the normalized weights.\<close>

definition buildRows :: "Inputs \<Rightarrow> Weights \<Rightarrow> AllocationRow list" where
  "buildRows i base =
     (let usaPct = fst (regionSplit i);
          indPct = snd (regionSplit i);
          equityUSA = (equity base * usaPct) / 100;
          equityIND = (equity base * indPct) / 100;
          fixedUSA = (fixed base * usaPct) / 100;
          fixedIND = (fixed base * indPct) / 100;
          goldUSA = (gold base * usaPct) / 100;
          goldIND = (gold base * indPct) / 100;
          reitsUSA = (reits base * usaPct) / 100;
          reitsIND = (reits base * indPct) / 100;
          cashUSA = (cash base * usaPct) / 100;
          cashIND = (cash base * indPct) / 100
      in map (equityRowUSA equityUSA) sectorTiltUSA
         @ map (equityRowIND equityIND) sectorTiltIND
         @ pushIf (fixedUSA > 0)
             (push ''Fixed Income'' ''UST Bills/Notes Ladder (T-Bills, 2-5y Notes)'' ''USA''
                fixedUSA (3.5, 5) Low ''Income & drawdown buffer'')
         @ pushIf (fixedIND > 0)
             (push ''Fixed Income'' ''India G-Secs/SDL Ladder (T-Bills, 5-10y)'' ''India''
                fixedIND (6, 7.5) Low ''Carry + rate diversification'')
         @ (if gold base > 0 then
              pushIf (goldUSA > 0)
                (push ''Commodity'' ''Gold ETF (GLD/IAU)'' ''Global'' goldUSA (4.5, 6) Low
                   ''Inflation & crisis hedge'')
              @ pushIf (goldIND > 0)
                (push ''Commodity'' ''India Gold ETF/SGB'' ''India'' goldIND (4.5, 6) Low
                   ''Local currency hedge'')
            else [])
         @ pushIf (reitsUSA > 0)
             (push ''REITs'' ''U.S. REIT ETF (VNQ)'' ''USA'' reitsUSA (5, 7) Medium
                ''Income + diversification'')
         @ pushIf (reitsIND > 0)
             (push ''REITs'' ''India REIT/InvIT'' ''India'' reitsIND (6, 8) Medium
                ''Infra & real-asset exposure'')
         @ pushIf (cashUSA > 0)
             (push ''Cash'' ''USD MMF / T-Bill ETF (BIL/SGOV)'' ''USA'' cashUSA (3, 4) Low
                ''Dry powder for dips'')
         @ pushIf (cashIND > 0)
             (push ''Cash'' ''INR Liquid Fund / T-Bill'' ''India'' cashIND (5, 6) Low
                ''Liquidity buffer'')
         @ pushIf (includeCrypto i \<and> crypto base > 0)
             (push ''Crypto'' ''BTC/ETH Spot ETF Blend'' ''Global'' (crypto base) (12, 20)
                VeryHigh ''Speculative convexity with cap''))"

definition rawRows :: "Inputs \<Rightarrow> AllocationRow list" where
  "rawRows i = buildRows i (normalize (adjusted i))"

subsection \<open>Consolidation and ordering (lines 129-135)\<close>

text \<open>
  Line 131: the loop over \<open>rows\<close>, with the array \<open>cleaned\<close> and the number \<open>tiny\<close> as
  its state.
\<close>

fun consolidate ::
  "AllocationRow list \<Rightarrow> AllocationRow list \<Rightarrow> real \<Rightarrow> AllocationRow list \<times> real"
where
  "consolidate [] cleaned tiny = (cleaned, tiny)"
| "consolidate (r # rs) cleaned tiny =
     (if pct r < 0.4 then consolidate rs cleaned (tiny + pct r)
      else consolidate rs (cleaned @ [r]) tiny)"

definition tinyTotal :: "Inputs \<Rightarrow> real" where
  "tinyTotal i = snd (consolidate (rawRows i) [] 0)"

definition consolidatedRow :: "real \<Rightarrow> AllocationRow" where
  "consolidatedRow tiny =
     \<lparr>assetClass = ''Cash'', instrument = ''Consolidated'', country = ''Global'', pct = tiny,
      expCagr = (0, 0), riskTier = Low, rationale = ''Rounded tiny slices''\<rparr>"

text \<open>Line 132.\<close>

definition cleanedRows :: "Inputs \<Rightarrow> AllocationRow list" where
  "cleanedRows i =
     (case consolidate (rawRows i) [] 0 of
        (cleaned, tiny) \<Rightarrow> if tiny > 0 then cleaned @ [consolidatedRow tiny] else cleaned)"

text \<open>
  \<open>Array.prototype.sort\<close> with a comparator: a stable sort that puts \<open>a\<close> before \<open>b\<close>
  when \<open>cmp a b\<close> is negative, and keeps the order of the array when it is zero.
\<close>

fun insert_cmp :: "('a \<Rightarrow> 'a \<Rightarrow> real) \<Rightarrow> 'a \<Rightarrow> 'a list \<Rightarrow> 'a list" where
  "insert_cmp cmp x [] = [x]"
| "insert_cmp cmp x (y # ys) =
     (if cmp x y \<le> 0 then x # y # ys else y # insert_cmp cmp x ys)"

fun sort_cmp :: "('a \<Rightarrow> 'a \<Rightarrow> real) \<Rightarrow> 'a list \<Rightarrow> 'a list" where
  "sort_cmp cmp [] = []"
| "sort_cmp cmp (x # xs) = insert_cmp cmp x (sort_cmp cmp xs)"

definition autoAllocate :: "Inputs \<Rightarrow> AllocationRow list" where
  "autoAllocate i = sort_cmp (\<lambda>a b. pct b - pct a) (cleanedRows i)"

subsection \<open>Valid preferences\<close>

text \<open>
  The region split sums to 100, the crypto cap lies in [0, 10] and the horizon in
  [1, 30].
\<close>

definition valid :: "Inputs \<Rightarrow> bool" where
  "valid i \<longleftrightarrow>
     fst (regionSplit i) + snd (regionSplit i) = 100
     \<and> 0 \<le> cryptoCapPct i \<and> cryptoCapPct i \<le> 10
     \<and> 1 \<le> horizon i \<and> horizon i \<le> 30"

definition sumPct :: "AllocationRow list \<Rightarrow> real" where
  "sumPct rows = sum_list (map pct rows)"

text \<open>The preferences the application starts with (lines 139-149).\<close>

definition defaultInputs :: Inputs where
  "defaultInputs =
     \<lparr>budget = 25000, horizon = 7, risk = Moderate, regionSplit = (60, 40), currency = USD,
      includeGold = True, includeCrypto = False, cryptoCapPct = 3, rebalFreq = Annual\<rparr>"

text \<open>A short horizon with the Aggressive profile.\<close>

definition shortAggressive :: Inputs where
  "shortAggressive = defaultInputs\<lparr>horizon := 2, risk := Aggressive\<rparr>"


text \<open>Gold and crypto both excluded.\<close>

definition optedOut :: Inputs where
  "optedOut = defaultInputs\<lparr>includeGold := False, includeCrypto := False\<rparr>"

text \<open>The Moderate profile with crypto included.\<close>

definition moderateCrypto :: Inputs where
  "moderateCrypto = defaultInputs\<lparr>includeCrypto := True\<rparr>"

text \<open>The Conservative profile on a short horizon with a small India share.\<close>

definition tinySlices :: Inputs where
  "tinySlices = defaultInputs\<lparr>horizon := 2, risk := Conservative, regionSplit := (80, 20)\<rparr>"

subsection \<open>Lines 44-55 in double arithmetic\<close>

text \<open>
  The exponent of a number that is at least 1: how often it is halved until it is
  below 2.
\<close>

function expo_up :: "real \<Rightarrow> nat" where
  "expo_up x = (if 2 \<le> x then Suc (expo_up (x / 2)) else 0)"
  by pat_completeness auto
termination
proof (relation "measure (\<lambda>x. nat \<lfloor>x\<rfloor>)")
  fix x :: real assume "2 \<le> x"
  then have "\<lfloor>x / 2\<rfloor> < \<lfloor>x\<rfloor>" by linarith
  moreover have "0 < \<lfloor>x\<rfloor>" using \<open>2 \<le> x\<close> by linarith
  ultimately show "(x / 2, x) \<in> measure (\<lambda>x. nat \<lfloor>x\<rfloor>)" by simp
qed simp

text \<open>
  The exponent of a positive number below 1: how often it is doubled until it is at
  least 1.
\<close>

function expo_dn :: "real \<Rightarrow> nat" where
  "expo_dn x = (if 0 < x \<and> x < 1 then Suc (expo_dn (2 * x)) else 0)"
  by pat_completeness auto
termination
proof (relation "measure (\<lambda>x. nat \<lceil>1 / x\<rceil>)")
  fix x :: real assume "0 < x \<and> x < 1"
  then have y: "1 < 1 / x" by simp
  have "\<lceil>1 / (2 * x)\<rceil> < \<lceil>1 / x\<rceil>"
  proof (cases "2 \<le> 1 / x")
    case True
    have "1 / (2 * x) = (1 / x) / 2" by simp
    with True show ?thesis by linarith
  next
    case False
    have "1 / (2 * x) = (1 / x) / 2" by simp
    with False y have "\<lceil>1 / (2 * x)\<rceil> \<le> 1" "2 \<le> \<lceil>1 / x\<rceil>" by linarith+
    then show ?thesis by linarith
  qed
  moreover have "0 < \<lceil>1 / x\<rceil>" using y by linarith
  ultimately show "(2 * x, x) \<in> measure (\<lambda>x. nat \<lceil>1 / x\<rceil>)" by simp
qed simp

declare expo_up.simps [simp del] expo_dn.simps [simp del]

text \<open>
  The distance between neighbouring doubles at a positive number: the significand has 53
  bits.
\<close>

definition ulp :: "real \<Rightarrow> real" where
  "ulp x = (if 1 \<le> x then 2 ^ expo_up x / 2 ^ 52 else 1 / 2 ^ (52 + expo_dn x))"

text \<open>Rounding to the nearest integer, a tie to the even one.\<close>

definition rne :: "real \<Rightarrow> int" where
  "rne y =
     (let f = \<lfloor>y\<rfloor>; d = y - of_int f
      in if d < 1 / 2 then f else if 1 / 2 < d then f + 1 else if even f then f else f + 1)"

text \<open>
  The double nearest to a real number, a tie to the even significand. Overflow and
  subnormal numbers are left out: with a valid double for the cap, every number that
  lines 44-55 round lies between \<open>2^-52\<close> and 128.
\<close>

definition fl :: "real \<Rightarrow> real" where
  "fl x = (if x = 0 then 0 else sgn x * (of_int (rne (\<bar>x\<bar> / ulp \<bar>x\<bar>)) * ulp \<bar>x\<bar>))"

text \<open>The operators \<open>+\<close> and \<open>-\<close> of JavaScript on doubles.\<close>

definition addD :: "real \<Rightarrow> real \<Rightarrow> real" where
  "addD a b = fl (a + b)"

definition subD :: "real \<Rightarrow> real \<Rightarrow> real" where
  "subD a b = fl (a - b)"

text \<open>Lines 45-53 and line 55 on doubles.\<close>

definition horizonTiltD :: "Inputs \<Rightarrow> Weights \<Rightarrow> Weights" where
  "horizonTiltD i base =
     (if horizon i \<ge> 10 then
        base\<lparr>equity := addD (equity base) 5, fixed := subD (fixed base) 5\<rparr>
      else if horizon i \<le> 3 then
        base\<lparr>equity := subD (equity base) 10, fixed := addD (fixed base) 10\<rparr>
      else base)"

definition goldOptOutD :: "Inputs \<Rightarrow> Weights \<Rightarrow> Weights" where
  "goldOptOutD i base =
     (if \<not> includeGold i then base\<lparr>fixed := addD (fixed base) (gold base), gold := 0\<rparr>
      else base)"

definition cryptoOptOutD :: "Inputs \<Rightarrow> Weights \<Rightarrow> Weights" where
  "cryptoOptOutD i base =
     (if \<not> includeCrypto i then
        base\<lparr>equity := addD (equity base) (crypto base), crypto := 0\<rparr>
      else base)"

definition cryptoCapD :: "Inputs \<Rightarrow> Weights \<Rightarrow> Weights" where
  "cryptoCapD i base =
     (if includeCrypto i \<and> crypto base > cryptoCapPct i then
        (let diff = subD (crypto base) (cryptoCapPct i)
         in base\<lparr>equity := addD (equity base) diff, crypto := cryptoCapPct i\<rparr>)
      else base)"

definition adjustedD :: "Inputs \<Rightarrow> Weights" where
  "adjustedD i =
     cryptoCapD i (cryptoOptOutD i (goldOptOutD i (horizonTiltD i (profiles (risk i)))))"

definition weightSumD :: "Weights \<Rightarrow> real" where
  "weightSumD base =
     addD (addD (addD (addD (addD (equity base) (fixed base)) (gold base)) (reits base))
       (cash base)) (if crypto base = 0 then 0 else crypto base)"

text \<open>
  The Moderate-Aggressive profile on a short horizon with crypto included under a cap of
  0.01, the double that \<open>Number("0.01")\<close> gives.
\<close>

definition centiCap :: Inputs where
  "centiCap =
     defaultInputs\<lparr>horizon := 2, risk := ModerateAggressive, includeCrypto := True,
       cryptoCapPct := fl (1 / 100)\<rparr>"

section \<open>The category weights through the adjustment steps\<close>

lemma weightSum_profiles: "weightSum (profiles r) = 100"
  by (cases r) (simp_all add: weightSum_def)

lemma weightSum_horizonTilt: "weightSum (horizonTilt i base) = weightSum base"
  by (simp add: horizonTilt_def weightSum_def)

lemma weightSum_goldOptOut: "weightSum (goldOptOut i base) = weightSum base"
  by (simp add: goldOptOut_def weightSum_def)

lemma weightSum_cryptoOptOut: "weightSum (cryptoOptOut i base) = weightSum base"
  by (simp add: cryptoOptOut_def weightSum_def)

lemma weightSum_cryptoCap: "weightSum (cryptoCap i base) = weightSum base"
  by (simp add: cryptoCap_def weightSum_def Let_def)

lemma weightSum_adjusted: "weightSum (adjusted i) = 100"
  by (simp add: adjusted_def weightSum_cryptoCap weightSum_cryptoOptOut weightSum_goldOptOut
      weightSum_horizonTilt weightSum_profiles)

text \<open>With the divisor 100, line 56 leaves every weight as it is.\<close>

lemma normalize_adjusted: "normalize (adjusted i) = adjusted i"
  by (simp add: normalize_def weightSum_adjusted)

lemma rawRows_adjusted: "rawRows i = buildRows i (adjusted i)"
  by (simp add: rawRows_def normalize_adjusted)

lemmas adjust_defs =
  adjusted_def cryptoCap_def cryptoOptOut_def goldOptOut_def horizonTilt_def Let_def

lemma gold_adjusted: "gold (adjusted i) = (if includeGold i then gold (profiles (risk i)) else 0)"
  by (simp add: adjust_defs)

lemma crypto_adjusted:
  "crypto (adjusted i) =
     (if includeCrypto i then min (crypto (profiles (risk i))) (cryptoCapPct i) else 0)"
  by (simp add: adjust_defs)

lemma reits_adjusted: "reits (adjusted i) = reits (profiles (risk i))"
  by (simp add: adjust_defs)

lemma cash_adjusted: "cash (adjusted i) = cash (profiles (risk i))"
  by (simp add: adjust_defs)

lemma profiles_nonneg:
  "0 \<le> gold (profiles r)" "0 \<le> reits (profiles r)" "0 \<le> cash (profiles r)"
  "0 \<le> crypto (profiles r)"
  by (cases r; simp)+

lemma fixed_horizonTilt: "3 \<le> fixed (horizonTilt i (profiles r))"
  by (cases r) (simp_all add: horizonTilt_def)

lemma fixed_goldOptOut: "3 \<le> fixed (goldOptOut i (horizonTilt i (profiles r)))"
  by (cases r) (simp_all add: goldOptOut_def horizonTilt_def)

lemma fixed_adjusted: "3 \<le> fixed (adjusted i)"
  by (cases "risk i") (simp_all add: adjust_defs)

lemma equity_adjusted: "25 \<le> equity (adjusted i)"
  by (cases "risk i") (simp_all add: adjust_defs)

section \<open>Rounding to doubles and the divisor of the normalization\<close>

lemma expo_up_spec: "1 \<le> x \<Longrightarrow> 2 ^ expo_up x \<le> x \<and> x < 2 * 2 ^ expo_up x"
proof (induction x rule: expo_up.induct)
  case (1 x)
  show ?case
  proof (cases "2 \<le> x")
    case True
    with 1 have "2 ^ expo_up (x / 2) \<le> x / 2 \<and> x / 2 < 2 * 2 ^ expo_up (x / 2)" by simp
    with True show ?thesis by (subst (1 2) expo_up.simps) simp
  next
    case False
    with 1 show ?thesis by (subst (1 2) expo_up.simps) simp
  qed
qed

lemma expo_dn_spec:
  "0 < x \<Longrightarrow> x < 1 \<Longrightarrow> 1 \<le> x * 2 ^ expo_dn x \<and> x * 2 ^ expo_dn x < 2"
proof (induction x rule: expo_dn.induct)
  case (1 x)
  show ?case
  proof (cases "2 * x < 1")
    case True
    with 1 have "1 \<le> 2 * x * 2 ^ expo_dn (2 * x) \<and> 2 * x * 2 ^ expo_dn (2 * x) < 2" by simp
    with 1 show ?thesis by (subst (1 2) expo_dn.simps) (simp add: mult_ac)
  next
    case False
    then have "expo_dn (2 * x) = 0" by (subst expo_dn.simps) simp
    with 1 False show ?thesis by (subst (1 2) expo_dn.simps) simp
  qed
qed

lemma ulp_pos: "0 < ulp x"
  by (simp add: ulp_def)

lemma ulp_le: "0 < x \<Longrightarrow> ulp x \<le> x / 2 ^ 52"
proof (cases "1 \<le> x")
  case True
  with expo_up_spec [of x] show ?thesis by (simp add: ulp_def divide_right_mono)
next
  case False
  assume "0 < x"
  with False expo_dn_spec [of x] have "1 \<le> x * 2 ^ expo_dn x" by simp
  then have "1 / (2 ^ 52 * 2 ^ expo_dn x) \<le> (x * 2 ^ expo_dn x) / (2 ^ 52 * 2 ^ expo_dn x)"
    by (intro divide_right_mono) simp_all
  with False show ?thesis by (simp add: ulp_def power_add)
qed

lemma rne_err: "\<bar>of_int (rne y) - y\<bar> \<le> 1 / 2"
  unfolding rne_def Let_def by (simp; linarith)

lemma rne_of_int: "rne (of_int k) = k"
  by (simp add: rne_def)

lemma fl_err:
  assumes "0 < x"
  shows "\<bar>fl x - x\<bar> \<le> x / 2 ^ 53"
proof -
  let ?u = "ulp x"
  have u: "0 < ?u" by (rule ulp_pos)
  have "fl x - x = ?u * (of_int (rne (x / ?u)) - x / ?u)"
    using assms u by (simp add: fl_def algebra_simps)
  then have "\<bar>fl x - x\<bar> = ?u * \<bar>of_int (rne (x / ?u)) - x / ?u\<bar>"
    using u by (simp add: abs_mult)
  also have "\<dots> \<le> ?u * (1 / 2)"
    using u rne_err [of "x / ?u"] by (intro mult_left_mono) simp_all
  also have "\<dots> \<le> (x / 2 ^ 52) * (1 / 2)"
    using ulp_le [OF assms] by simp
  finally show ?thesis by simp
qed

lemma fl_of_nat:
  assumes "0 < n" and "n < 2 ^ 53"
  shows "fl (real n) = real n"
proof -
  let ?e = "expo_up (real n)"
  from assms(1) have one: "1 \<le> real n" by simp
  from expo_up_spec [OF one] have "(2::real) ^ ?e \<le> real n" by simp
  also have "real n < 2 ^ 53"
    using assms(2) by (metis of_nat_less_iff of_nat_numeral of_nat_power)
  finally have lt: "(2::real) ^ ?e < 2 ^ 53" .
  have e: "?e < 53" by (rule power_less_imp_less_exp [OF _ lt]) simp
  define k where "k = 52 - ?e"
  with e have k: "52 = ?e + k" by simp
  have u: "ulp (real n) = 1 / 2 ^ k"
    using one by (simp add: ulp_def k power_add)
  have "real n / ulp (real n) = of_int (int n * 2 ^ k)" by (simp add: u)
  then have "rne (real n / ulp (real n)) = int n * 2 ^ k" by (simp only: rne_of_int)
  then show ?thesis using assms(1) by (simp add: fl_def u)
qed


lemma fl_numeral: "numeral k < (2::nat) ^ 53 \<Longrightarrow> fl (numeral k) = numeral k"
  using fl_of_nat [of "numeral k"] by simp

lemma fl_zero: "fl 0 = 0"
  by (simp add: fl_def)

lemma fl_err_128:
  assumes "0 < x" and "x \<le> 128"
  shows "\<bar>fl x - x\<bar> \<le> 1 / 2 ^ 46"
proof -
  have "x / 2 ^ 53 \<le> 128 / 2 ^ 53" using assms(2) by (intro divide_right_mono) simp_all
  with fl_err [OF assms(1)] show ?thesis by simp
qed

lemmas adjustD_defs =
  cryptoOptOutD_def goldOptOutD_def horizonTiltD_def cryptoOptOut_def goldOptOut_def
  horizonTilt_def addD_def subD_def fl_numeral fl_zero

lemma before_cap_exact:
  "cryptoOptOutD i (goldOptOutD i (horizonTiltD i (profiles r)))
     = cryptoOptOut i (goldOptOut i (horizonTilt i (profiles r)))"
  by (cases r) (simp_all add: adjustD_defs)

lemma weightSumD_before_cap:
  "weightSumD (cryptoOptOut i (goldOptOut i (horizonTilt i (profiles r)))) = 100"
  by (cases r) (simp_all add: weightSumD_def adjustD_defs)

lemma weightSumD_tilt: "weightSumD (horizonTiltD i (profiles r)) = 100"
  by (cases r) (simp_all add: weightSumD_def adjustD_defs)

lemma weightSumD_gold: "weightSumD (goldOptOutD i (horizonTiltD i (profiles r))) = 100"
  by (cases r) (simp_all add: weightSumD_def adjustD_defs)

lemma before_cap_bounds:
  fixes i r
  defines "w \<equiv> cryptoOptOut i (goldOptOut i (horizonTilt i (profiles r)))"
  shows "25 \<le> equity w" "0 \<le> fixed w" "0 \<le> gold w" "0 \<le> reits w" "0 \<le> cash w"
    "crypto w = 0 \<or> crypto w = 2"
    "equity w + fixed w + gold w + reits w + cash w + crypto w = 100"
  unfolding w_def by (cases r; simp add: cryptoOptOut_def goldOptOut_def horizonTilt_def)+

lemma clamped_sum_bound:
  fixes E F G R C cap :: real
  assumes "25 \<le> E" "0 \<le> F" "0 \<le> G" "0 \<le> R" "0 \<le> C" "E + F + G + R + C + 2 = 100"
    and "0 \<le> cap" "cap < 2"
  defines "s \<equiv> addD (addD (addD (addD (addD (addD E (subD 2 cap)) F) G) R) C)
      (if cap = 0 then 0 else cap)"
  shows "\<bar>s - 100\<bar> \<le> 1 / 10 ^ 9 \<and> 0 < s"
proof -
  define d where "d = fl (2 - cap)"
  define e where "e = fl (E + d)"
  define s1 where "s1 = fl (e + F)"
  define s2 where "s2 = fl (s1 + G)"
  define s3 where "s3 = fl (s2 + R)"
  define s4 where "s4 = fl (s3 + C)"
  have s: "s = fl (s4 + cap)"
    by (simp add: s_def addD_def subD_def d_def e_def s1_def s2_def s3_def s4_def)
  have d: "\<bar>d - (2 - cap)\<bar> \<le> 1 / 70368744177664"
  proof -
    have "0 < 2 - cap" "2 - cap \<le> 128" using assms(7,8) by linarith+
    from fl_err_128 [OF this] show ?thesis by (simp add: d_def)
  qed
  have e: "\<bar>e - (E + d)\<bar> \<le> 1 / 70368744177664"
  proof -
    have "0 < E + d" "E + d \<le> 128" using assms d by linarith+
    from fl_err_128 [OF this] show ?thesis by (simp add: e_def)
  qed
  have s1: "\<bar>s1 - (e + F)\<bar> \<le> 1 / 70368744177664"
  proof -
    have "0 < e + F" "e + F \<le> 128" using assms d e by linarith+
    from fl_err_128 [OF this] show ?thesis by (simp add: s1_def)
  qed
  have s2: "\<bar>s2 - (s1 + G)\<bar> \<le> 1 / 70368744177664"
  proof -
    have "0 < s1 + G" "s1 + G \<le> 128" using assms d e s1 by linarith+
    from fl_err_128 [OF this] show ?thesis by (simp add: s2_def)
  qed
  have s3: "\<bar>s3 - (s2 + R)\<bar> \<le> 1 / 70368744177664"
  proof -
    have "0 < s2 + R" "s2 + R \<le> 128" using assms d e s1 s2 by linarith+
    from fl_err_128 [OF this] show ?thesis by (simp add: s3_def)
  qed
  have s4: "\<bar>s4 - (s3 + C)\<bar> \<le> 1 / 70368744177664"
  proof -
    have "0 < s3 + C" "s3 + C \<le> 128" using assms d e s1 s2 s3 by linarith+
    from fl_err_128 [OF this] show ?thesis by (simp add: s4_def)
  qed
  have s5: "\<bar>s - (s4 + cap)\<bar> \<le> 1 / 70368744177664"
  proof -
    have "0 < s4 + cap" "s4 + cap \<le> 128" using assms d e s1 s2 s3 s4 by linarith+
    from fl_err_128 [OF this] show ?thesis by (simp add: s)
  qed
  have b: "\<bar>s - 100\<bar> \<le> 7 / 70368744177664"
    using assms(6) d e s1 s2 s3 s4 s5 by linarith
  then have "\<bar>s - 100\<bar> \<le> 1 / 1000000000" by linarith
  moreover have "0 < s" using b by linarith
  ultimately show ?thesis by simp
qed

lemma divisor_bound:
  assumes "valid i"
  shows "\<bar>weightSumD (adjustedD i) - 100\<bar> \<le> 1 / 10 ^ 9 \<and> 0 < weightSumD (adjustedD i)"
proof -
  define w where "w = cryptoOptOut i (goldOptOut i (horizonTilt i (profiles (risk i))))"
  have adj: "adjustedD i = cryptoCapD i w"
    by (simp add: adjustedD_def before_cap_exact w_def)
  note b = before_cap_bounds [of i "risk i", folded w_def]
  show ?thesis
  proof (cases "includeCrypto i \<and> crypto w > cryptoCapPct i")
    case False
    then have "adjustedD i = w" by (auto simp: adj cryptoCapD_def)
    then show ?thesis by (simp add: w_def weightSumD_before_cap)
  next
    case True
    with assms b(6) have c: "crypto w = 2" "0 \<le> cryptoCapPct i" "cryptoCapPct i < 2"
      by (auto simp: valid_def)
    from True have "weightSumD (adjustedD i) =
        addD (addD (addD (addD (addD (addD (equity w) (subD 2 (cryptoCapPct i))) (fixed w))
          (gold w)) (reits w)) (cash w)) (if cryptoCapPct i = 0 then 0 else cryptoCapPct i)"
      by (simp add: adj cryptoCapD_def weightSumD_def Let_def c(1))
    moreover have "equity w + fixed w + gold w + reits w + cash w + 2 = 100"
      using b(7) c(1) by simp
    ultimately show ?thesis
      using clamped_sum_bound [OF b(1-5) _ c(2,3)] by simp
  qed
qed

lemma fl_centi: "fl (1 / 100) = 5764607523034235 / 2 ^ 59"
  by (simp add: fl_def ulp_def rne_def expo_dn.simps Let_def)

lemma valid_centiCap: "valid centiCap"
  by (simp add: valid_def centiCap_def defaultInputs_def fl_centi)

lemma adjustedD_centiCap:
  "adjustedD centiCap =
     \<lparr>equity = 8724316903146783 / 2 ^ 47, fixed = 25, gold = 7, reits = 5, cash = 1,
      crypto = 5764607523034235 / 2 ^ 59\<rparr>"
  by (simp add: adjustedD_def cryptoCapD_def adjustD_defs centiCap_def defaultInputs_def
      fl_centi Let_def)
    (simp add: fl_def ulp_def rne_def expo_up.simps Let_def)

lemma weightSumD_centiCap: "weightSumD (adjustedD centiCap) = 100 + 1 / 2 ^ 46"
  unfolding adjustedD_centiCap
  by (simp add: weightSumD_def addD_def fl_def ulp_def rne_def expo_up.simps Let_def)

section \<open>Ordering and consolidation\<close>

lemma set_insert_cmp: "set (insert_cmp cmp x xs) = insert x (set xs)"
  by (induction xs) auto

lemma set_sort_cmp: "set (sort_cmp cmp xs) = set xs"
  by (induction xs) (simp_all add: set_insert_cmp)

lemma sum_list_insert_cmp: "sum_list (map f (insert_cmp cmp x xs)) = f x + sum_list (map f xs)"
  for f :: "'a \<Rightarrow> real"
  by (induction xs) simp_all

lemma sumPct_sort_cmp: "sumPct (sort_cmp cmp xs) = sumPct xs"
  by (induction xs) (simp_all add: sumPct_def sum_list_insert_cmp)

lemma filter_insert_cmp:
  "length (filter P (insert_cmp cmp x xs)) = length (filter P (x # xs))"
  by (induction xs) simp_all

lemma filter_sort_cmp: "length (filter P (sort_cmp cmp xs)) = length (filter P xs)"
  by (induction xs) (simp_all add: filter_insert_cmp)

lemma sorted_insert_cmp:
  "sorted_wrt (\<lambda>a b. pct a \<ge> pct b) xs \<Longrightarrow>
   sorted_wrt (\<lambda>a b. pct a \<ge> pct b) (insert_cmp (\<lambda>a b. pct b - pct a) x xs)"
  by (induction xs) (auto simp: set_insert_cmp)

lemma sorted_sort_cmp:
  "sorted_wrt (\<lambda>a b. pct a \<ge> pct b) (sort_cmp (\<lambda>a b. pct b - pct a) xs)"
  by (induction xs) (simp_all add: sorted_insert_cmp)

lemma consolidate_eq:
  "consolidate rs cleaned tiny =
     (cleaned @ filter (\<lambda>r. \<not> pct r < 0.4) rs,
      tiny + sumPct (filter (\<lambda>r. pct r < 0.4) rs))"
  by (induction rs arbitrary: cleaned tiny) (simp_all add: sumPct_def)

lemma tinyTotal_eq: "tinyTotal i = sumPct (filter (\<lambda>r. pct r < 0.4) (rawRows i))"
  by (simp add: tinyTotal_def consolidate_eq)

lemma cleanedRows_eq:
  "cleanedRows i =
     filter (\<lambda>r. \<not> pct r < 0.4) (rawRows i)
       @ (if tinyTotal i > 0 then [consolidatedRow (tinyTotal i)] else [])"
  by (simp add: cleanedRows_def tinyTotal_eq consolidate_eq)

lemma sumPct_append: "sumPct (xs @ ys) = sumPct xs + sumPct ys"
  by (simp add: sumPct_def)

lemma sumPct_filter_split:
  "sumPct (filter (\<lambda>r. \<not> P r) xs) + sumPct (filter P xs) = sumPct xs"
  by (induction xs) (simp_all add: sumPct_def)

lemma sumPct_nonneg: "(\<And>r. r \<in> set xs \<Longrightarrow> 0 \<le> pct r) \<Longrightarrow> 0 \<le> sumPct xs"
  by (induction xs) (simp_all add: sumPct_def)

lemma sumPct_cleanedRows:
  assumes "\<And>r. r \<in> set (rawRows i) \<Longrightarrow> 0 \<le> pct r"
  shows "sumPct (cleanedRows i) = sumPct (rawRows i)"
proof -
  have "0 \<le> tinyTotal i"
    unfolding tinyTotal_eq using assms by (intro sumPct_nonneg) simp
  then have "sumPct (if tinyTotal i > 0 then [consolidatedRow (tinyTotal i)] else []) = tinyTotal i"
    by (simp add: sumPct_def consolidatedRow_def)
  then show ?thesis
    using sumPct_filter_split [of "\<lambda>r. pct r < 0.4" "rawRows i"]
    by (simp add: cleanedRows_eq sumPct_append tinyTotal_eq)
qed

section \<open>The rows before consolidation\<close>

lemma push_sel:
  "assetClass (push ac ins co p ex rk ra) = ac"
  "instrument (push ac ins co p ex rk ra) = ins"
  "country (push ac ins co p ex rk ra) = co"
  "pct (push ac ins co p ex rk ra) = p"
  by (simp_all add: push_def)

lemma equityRowUSA_sel:
  "assetClass (equityRowUSA e s) = ''Equity''"
  "instrument (equityRowUSA e s) = instr s"
  "pct (equityRowUSA e s) = (e * tilt s) / 100"
  by (simp_all add: equityRowUSA_def push_sel)

lemma equityRowIND_sel:
  "assetClass (equityRowIND e s) = ''Equity''"
  "instrument (equityRowIND e s) = instr s"
  "pct (equityRowIND e s) = (e * tilt s) / 100"
  by (simp_all add: equityRowIND_def push_sel)

lemma in_set_pushIf: "r \<in> set (pushIf c x) \<longleftrightarrow> c \<and> r = x"
  by (cases c) (simp_all add: pushIf_def)

lemma sumPct_pushIf: "sumPct (pushIf c x) = (if c then pct x else 0)"
  by (simp add: pushIf_def sumPct_def)

lemma sumPct_equityUSA: "sumPct (map (equityRowUSA e) sectorTiltUSA) = e"
  by (simp add: sumPct_def sectorTiltUSA_def equityRowUSA_sel)

lemma sumPct_equityIND: "sumPct (map (equityRowIND e) sectorTiltIND) = e"
  by (simp add: sumPct_def sectorTiltIND_def equityRowIND_sel)

lemma equity_rows_class:
  "r \<in> set (map (equityRowUSA e) sectorTiltUSA) \<Longrightarrow> assetClass r = ''Equity''"
  "r \<in> set (map (equityRowIND e') sectorTiltIND) \<Longrightarrow> assetClass r = ''Equity''"
  by (auto simp: equityRowUSA_sel equityRowIND_sel)

lemma equity_rows_instrument:
  "r \<in> set (map (equityRowUSA e) sectorTiltUSA) \<Longrightarrow> instrument r \<noteq> ''Consolidated''"
  "r \<in> set (map (equityRowIND e') sectorTiltIND) \<Longrightarrow> instrument r \<noteq> ''Consolidated''"
  by (auto simp: equityRowUSA_sel equityRowIND_sel sectorTiltUSA_def sectorTiltIND_def)

lemma equity_rows_pct:
  "r \<in> set (map (equityRowUSA e) sectorTiltUSA) \<Longrightarrow> 0 \<le> e \<Longrightarrow> 0 \<le> pct r"
  "r \<in> set (map (equityRowIND e') sectorTiltIND) \<Longrightarrow> 0 \<le> e' \<Longrightarrow> 0 \<le> pct r"
  by (auto simp: equityRowUSA_sel equityRowIND_sel sectorTiltUSA_def sectorTiltIND_def)

lemma buildRows_cases:
  assumes "r \<in> set (buildRows i base)"
  obtains
    (usa) "r \<in> set (map (equityRowUSA ((equity base * fst (regionSplit i)) / 100)) sectorTiltUSA)"
  | (ind) "r \<in> set (map (equityRowIND ((equity base * snd (regionSplit i)) / 100)) sectorTiltIND)"
  | (fixed) "assetClass r = ''Fixed Income''" "instrument r \<noteq> ''Consolidated''" "0 < pct r"
  | (gold) "assetClass r = ''Commodity''" "instrument r \<noteq> ''Consolidated''" "0 < pct r"
      "0 < gold base"
  | (reits) "assetClass r = ''REITs''" "instrument r \<noteq> ''Consolidated''" "0 < pct r"
  | (cash) "assetClass r = ''Cash''" "instrument r \<noteq> ''Consolidated''" "0 < pct r"
  | (crypto) "assetClass r = ''Crypto''" "instrument r \<noteq> ''Consolidated''" "0 < pct r"
      "includeCrypto i" "pct r = crypto base"
  using assms unfolding buildRows_def Let_def set_append Un_iff in_set_pushIf
  by (elim disjE; (simp add: push_sel in_set_pushIf split: if_splits)?) (auto simp: push_sel)

lemma buildRows_not_Consolidated:
  assumes "r \<in> set (buildRows i base)"
  shows "instrument r \<noteq> ''Consolidated''"
  using assms
proof (cases rule: buildRows_cases)
  case usa
  then show ?thesis by (rule equity_rows_instrument(1))
next
  case ind
  then show ?thesis by (rule equity_rows_instrument(2))
qed

lemma buildRows_Commodity:
  assumes "r \<in> set (buildRows i base)" and "assetClass r = ''Commodity''"
  shows "0 < gold base"
  using assms(1)
proof (cases rule: buildRows_cases)
  case usa
  from equity_rows_class(1) [OF usa] assms(2) show ?thesis by simp
next
  case ind
  from equity_rows_class(2) [OF ind] assms(2) show ?thesis by simp
qed (use assms(2) in simp_all)

lemma buildRows_Crypto:
  assumes "r \<in> set (buildRows i base)" and "assetClass r = ''Crypto''"
  shows "includeCrypto i \<and> 0 < pct r \<and> pct r = crypto base"
  using assms(1)
proof (cases rule: buildRows_cases)
  case usa
  from equity_rows_class(1) [OF usa] assms(2) show ?thesis by simp
next
  case ind
  from equity_rows_class(2) [OF ind] assms(2) show ?thesis by simp
qed (use assms(2) in simp_all)

lemma buildRows_nonneg:
  assumes "r \<in> set (buildRows i base)"
    and "0 \<le> equity base" and "0 \<le> fst (regionSplit i)" and "0 \<le> snd (regionSplit i)"
  shows "0 \<le> pct r"
  using assms(1)
proof (cases rule: buildRows_cases)
  case usa
  have "0 \<le> (equity base * fst (regionSplit i)) / 100" using assms(2,3) by simp
  with usa show ?thesis by (rule equity_rows_pct(1))
next
  case ind
  have "0 \<le> (equity base * snd (regionSplit i)) / 100" using assms(2,4) by simp
  with ind show ?thesis by (rule equity_rows_pct(2))
qed simp_all

lemma pos_part:
  fixes a b :: real
  assumes "0 \<le> a" and "0 \<le> b"
  shows "(if 0 < (a * b) / 100 then (a * b) / 100 else 0) = (a * b) / 100"
  using mult_nonneg_nonneg [OF assms] by simp

lemma sumPct_if: "sumPct (if c then xs else []) = (if c then sumPct xs else 0)"
  by (simp add: sumPct_def)

lemma sumPct_buildRows:
  assumes split: "0 \<le> fst (regionSplit i)" "0 \<le> snd (regionSplit i)"
      "fst (regionSplit i) + snd (regionSplit i) = 100"
    and w: "0 \<le> fixed base" "0 \<le> gold base" "0 \<le> reits base" "0 \<le> cash base"
      "0 \<le> crypto base"
    and c: "includeCrypto i \<or> crypto base = 0"
  shows "sumPct (buildRows i base) = weightSum base"
proof -
  obtain u d where ud: "regionSplit i = (u, d)" by (cases "regionSplit i")
  with split have u: "0 \<le> u" and d: "0 \<le> d" and s: "d = 100 - u" by simp_all
  have cr: "(if includeCrypto i \<and> 0 < crypto base then crypto base else 0) = crypto base"
    using c w(5) by auto
  have g: "(if 0 < gold base then (gold base * u) / 100 + (gold base * d) / 100 else 0)
      = (gold base * u) / 100 + (gold base * d) / 100"
    using w(2) by simp
  have "sumPct (buildRows i base)
      = (equity base * u) / 100 + ((equity base * d) / 100
        + ((fixed base * u) / 100 + ((fixed base * d) / 100
        + ((gold base * u) / 100 + (gold base * d) / 100
        + ((reits base * u) / 100 + ((reits base * d) / 100
        + ((cash base * u) / 100 + ((cash base * d) / 100 + crypto base))))))))"
    unfolding buildRows_def Let_def sumPct_append sumPct_pushIf sumPct_equityUSA
      sumPct_equityIND push_sel sumPct_if ud fst_conv snd_conv cr
      pos_part [OF w(1) u] pos_part [OF w(1) d] pos_part [OF w(2) u] pos_part [OF w(2) d]
      pos_part [OF w(3) u] pos_part [OF w(3) d] pos_part [OF w(4) u] pos_part [OF w(4) d] g
    by (rule refl)
  also have "\<dots> = weightSum base"
    unfolding s weightSum_def by (simp add: field_simps)
  finally show ?thesis .
qed

section \<open>The returned list\<close>

lemma in_autoAllocate:
  "r \<in> set (autoAllocate i) \<longleftrightarrow>
     (r \<in> set (rawRows i) \<and> \<not> pct r < 0.4)
     \<or> (0 < tinyTotal i \<and> r = consolidatedRow (tinyTotal i))"
  by (cases "0 < tinyTotal i") (auto simp: autoAllocate_def set_sort_cmp cleanedRows_eq)

lemma adjusted_nonneg:
  assumes "valid i"
  shows "0 \<le> equity (adjusted i)" "0 \<le> fixed (adjusted i)" "0 \<le> gold (adjusted i)"
    "0 \<le> reits (adjusted i)" "0 \<le> cash (adjusted i)" "0 \<le> crypto (adjusted i)"
    "includeCrypto i \<or> crypto (adjusted i) = 0"
  using assms equity_adjusted [of i] fixed_adjusted [of i] profiles_nonneg [of "risk i"]
  by (simp_all add: gold_adjusted reits_adjusted cash_adjusted crypto_adjusted valid_def)

lemma sumPct_autoAllocate:
  assumes "valid i" and "0 \<le> fst (regionSplit i)" and "0 \<le> snd (regionSplit i)"
  shows "sumPct (autoAllocate i) = 100"
proof -
  have raw: "0 \<le> pct r" if "r \<in> set (rawRows i)" for r
    using that adjusted_nonneg(1) [OF assms(1)] assms(2,3)
    unfolding rawRows_adjusted by (rule buildRows_nonneg)
  have split: "fst (regionSplit i) + snd (regionSplit i) = 100"
    using assms(1) by (simp add: valid_def)
  have "sumPct (autoAllocate i) = sumPct (cleanedRows i)"
    by (simp add: autoAllocate_def sumPct_sort_cmp)
  also have "\<dots> = sumPct (rawRows i)"
    using raw by (rule sumPct_cleanedRows)
  also have "\<dots> = weightSum (adjusted i)"
    unfolding rawRows_adjusted
    using assms(2,3) split adjusted_nonneg(2-7) [OF assms(1)] by (rule sumPct_buildRows)
  finally show ?thesis by (simp add: weightSum_adjusted)
qed

section \<open>Sample preferences\<close>

lemma valid_defaultInputs: "valid defaultInputs"
  by (simp add: valid_def defaultInputs_def)

lemma valid_shortAggressive: "valid shortAggressive"
  by (simp add: valid_def shortAggressive_def defaultInputs_def)


lemma valid_optedOut: "valid optedOut"
  by (simp add: valid_def optedOut_def defaultInputs_def)

lemma valid_moderateCrypto: "valid moderateCrypto"
  by (simp add: valid_def moderateCrypto_def defaultInputs_def)

lemma valid_tinySlices: "valid tinySlices"
  by (simp add: valid_def tinySlices_def defaultInputs_def)

text \<open>The engine run on the sample preferences.\<close>

lemmas row_defs = buildRows_def pushIf_def push_def equityRowUSA_def equityRowIND_def
  sectorTiltUSA_def sectorTiltIND_def Let_def


lemma adjusted_tinySlices:
  "adjusted tinySlices =
     \<lparr>equity = 25, fixed = 55, gold = 12, reits = 4, cash = 4, crypto = 0\<rparr>"
  by (simp add: adjust_defs tinySlices_def defaultInputs_def)

lemma adjusted_defaultInputs:
  "adjusted defaultInputs =
     \<lparr>equity = 60, fixed = 25, gold = 8, reits = 5, cash = 2, crypto = 0\<rparr>"
  by (simp add: adjust_defs defaultInputs_def)


lemma consolidated_row_tinySlices:
  "map pct (filter (\<lambda>r. instrument r = ''Consolidated'') (autoAllocate tinySlices)) = [1 / 4]"
  unfolding autoAllocate_def cleanedRows_def rawRows_adjusted adjusted_tinySlices
  by (simp add: row_defs tinySlices_def defaultInputs_def consolidatedRow_def)

lemma pct_defaultInputs:
  "map pct (autoAllocate defaultInputs) =
     [99 / 5, 15, 66 / 5, 10, 36 / 5, 24 / 5, 24 / 5, 18 / 5, 16 / 5, 3, 72 / 25, 63 / 25,
      12 / 5, 12 / 5, 2, 6 / 5, 6 / 5, 4 / 5]"
  unfolding autoAllocate_def cleanedRows_def rawRows_adjusted adjusted_defaultInputs
  by (simp add: row_defs defaultInputs_def)

section \<open>The claims\<close>

text \<open>
  C1. For every valid preferences record (the region split a pair of percentages, each at
  least 0, that sum to 100; crypto cap in [0, 10]; horizon in [1, 30]) the \<open>pct\<close> of the
  returned rows sum to 100 within 1e-6. In exact arithmetic the sum is 100.
\<close>

theorem allocation_sums_to_100:
  assumes "valid i" and "0 \<le> fst (regionSplit i)" and "0 \<le> snd (regionSplit i)"
  shows "\<bar>sumPct (autoAllocate i) - 100\<bar> \<le> 1 / 10 ^ 6"
  using sumPct_autoAllocate [OF assms] by simp

theorem allocation_sums_to_100_witness:
  "valid defaultInputs \<and> 0 \<le> fst (regionSplit defaultInputs)
    \<and> 0 \<le> snd (regionSplit defaultInputs)
    \<and> \<bar>sumPct (autoAllocate defaultInputs) - 100\<bar> \<le> 1 / 10 ^ 6"
proof -
  have u: "0 \<le> fst (regionSplit defaultInputs)" and d: "0 \<le> snd (regionSplit defaultInputs)"
    by (simp_all add: defaultInputs_def)
  from allocation_sums_to_100 [OF valid_defaultInputs u d] valid_defaultInputs u d
  show ?thesis by simp
qed



text \<open>
  C3. For every valid preferences record: with \<open>includeGold = false\<close> no returned row
  has asset class Commodity, and with \<open>includeCrypto = false\<close> no returned row has asset
  class Crypto.
\<close>

theorem opt_out_rows_absent:
  assumes "valid i"
  shows "(\<not> includeGold i \<longrightarrow> (\<forall>r \<in> set (autoAllocate i). assetClass r \<noteq> ''Commodity''))
    \<and> (\<not> includeCrypto i \<longrightarrow> (\<forall>r \<in> set (autoAllocate i). assetClass r \<noteq> ''Crypto''))"
proof (intro conjI impI ballI notI)
  fix r assume g: "\<not> includeGold i" and r: "r \<in> set (autoAllocate i)"
    and c: "assetClass r = ''Commodity''"
  from c have "r \<noteq> consolidatedRow (tinyTotal i)" by (auto simp: consolidatedRow_def)
  with r have "r \<in> set (buildRows i (adjusted i))"
    by (simp add: in_autoAllocate rawRows_adjusted)
  from buildRows_Commodity [OF this c] g show False by (simp add: gold_adjusted)
next
  fix r assume g: "\<not> includeCrypto i" and r: "r \<in> set (autoAllocate i)"
    and c: "assetClass r = ''Crypto''"
  from c have "r \<noteq> consolidatedRow (tinyTotal i)" by (auto simp: consolidatedRow_def)
  with r have "r \<in> set (buildRows i (adjusted i))"
    by (simp add: in_autoAllocate rawRows_adjusted)
  from buildRows_Crypto [OF this c] g show False by simp
qed

theorem opt_out_rows_absent_witness:
  "valid optedOut \<and> \<not> includeGold optedOut \<and> \<not> includeCrypto optedOut
    \<and> list_all (\<lambda>r. assetClass r \<noteq> ''Commodity'') (autoAllocate optedOut)
    \<and> list_all (\<lambda>r. assetClass r \<noteq> ''Crypto'') (autoAllocate optedOut)"
proof -
  have g: "\<not> includeGold optedOut" and c: "\<not> includeCrypto optedOut"
    by (simp_all add: optedOut_def defaultInputs_def)
  from opt_out_rows_absent [OF valid_optedOut] valid_optedOut g c
  show ?thesis by (simp add: list_all_iff)
qed

text \<open>
  C4. For every valid preferences record, every \<open>pct\<close> of the returned list is at
  least 0.
\<close>

theorem every_pct_nonneg:
  assumes "valid i"
  shows "\<forall>r \<in> set (autoAllocate i). 0 \<le> pct r"
  by (auto simp: in_autoAllocate consolidatedRow_def)

theorem every_pct_nonneg_witness:
  "valid defaultInputs \<and> autoAllocate defaultInputs \<noteq> []
    \<and> list_all (\<lambda>r. 0 \<le> pct r) (autoAllocate defaultInputs)"
proof -
  have "autoAllocate defaultInputs \<noteq> []"
    using pct_defaultInputs by auto
  with every_pct_nonneg [OF valid_defaultInputs] valid_defaultInputs
  show ?thesis by (simp add: list_all_iff)
qed

text \<open>
  C5. For every valid preferences record, every returned row other than the row named
  Consolidated has a \<open>pct\<close> of at least 0.4; the Consolidated row occurs at most once,
  and only when the total of the slices taken out is strictly positive.
\<close>

theorem consolidation_threshold:
  assumes "valid i"
  shows "(\<forall>r \<in> set (autoAllocate i). instrument r \<noteq> ''Consolidated'' \<longrightarrow> 0.4 \<le> pct r)
    \<and> length (filter (\<lambda>r. instrument r = ''Consolidated'') (autoAllocate i)) \<le> 1
    \<and> ((\<exists>r \<in> set (autoAllocate i). instrument r = ''Consolidated'') \<longrightarrow> 0 < tinyTotal i)"
proof -
  have raw: "filter (\<lambda>r. instrument r = ''Consolidated'') (filter (\<lambda>r. \<not> pct r < 0.4) (rawRows i)) = []"
    by (auto simp: filter_empty_conv rawRows_adjusted dest: buildRows_not_Consolidated)
  have 1: "\<forall>r \<in> set (autoAllocate i). instrument r \<noteq> ''Consolidated'' \<longrightarrow> 0.4 \<le> pct r"
    by (auto simp: in_autoAllocate consolidatedRow_def)
  have 2: "length (filter (\<lambda>r. instrument r = ''Consolidated'') (autoAllocate i)) \<le> 1"
    unfolding autoAllocate_def filter_sort_cmp cleanedRows_eq filter_append raw by simp
  have 3: "(\<exists>r \<in> set (autoAllocate i). instrument r = ''Consolidated'') \<longrightarrow> 0 < tinyTotal i"
    by (auto simp: in_autoAllocate rawRows_adjusted dest: buildRows_not_Consolidated)
  from 1 2 3 show ?thesis by blast
qed

theorem consolidation_threshold_witness:
  "valid tinySlices
    \<and> list_ex (\<lambda>r. instrument r = ''Consolidated'') (autoAllocate tinySlices)
    \<and> list_all (\<lambda>r. instrument r \<noteq> ''Consolidated'' \<longrightarrow> 0.4 \<le> pct r) (autoAllocate tinySlices)
    \<and> length (filter (\<lambda>r. instrument r = ''Consolidated'') (autoAllocate tinySlices)) \<le> 1
    \<and> 0 < tinyTotal tinySlices"
proof -
  have "filter (\<lambda>r. instrument r = ''Consolidated'') (autoAllocate tinySlices) \<noteq> []"
    using consolidated_row_tinySlices by auto
  then have ex: "\<exists>r \<in> set (autoAllocate tinySlices). instrument r = ''Consolidated''"
    by (simp add: filter_empty_conv)
  from consolidation_threshold [OF valid_tinySlices] valid_tinySlices ex
  show ?thesis by (simp add: list_all_iff list_ex_iff)
qed

text \<open>
  C6, as the specification states it: some valid preferences record with a horizon of at
  most 3 years and the Aggressive profile has a negative fixed-income weight after the
  horizon tilt and before the normalization. No such record exists: the short-horizon
  branch of line 46 adds 10 to the fixed-income weight, it does not subtract.
\<close>

theorem short_aggressive_fixed_never_negative:
  "\<not> (\<exists>i. valid i \<and> horizon i \<le> 3 \<and> risk i = Aggressive
        \<and> (fixed (horizonTilt i (profiles (risk i))) < 0
           \<or> fixed (goldOptOut i (horizonTilt i (profiles (risk i)))) < 0
           \<or> fixed (adjusted i) < 0))"
proof
  assume "\<exists>i. valid i \<and> horizon i \<le> 3 \<and> risk i = Aggressive
        \<and> (fixed (horizonTilt i (profiles (risk i))) < 0
           \<or> fixed (goldOptOut i (horizonTilt i (profiles (risk i)))) < 0
           \<or> fixed (adjusted i) < 0)"
  then obtain i where
    neg: "fixed (horizonTilt i (profiles (risk i))) < 0
           \<or> fixed (goldOptOut i (horizonTilt i (profiles (risk i)))) < 0
           \<or> fixed (adjusted i) < 0"
    by blast
  from fixed_horizonTilt [of i "risk i"] fixed_goldOptOut [of i "risk i"] fixed_adjusted [of i]
    neg
  show False by linarith
qed

text \<open>
  C6, amended: for every valid preferences record with a horizon of at most 3 years and the
  Aggressive profile, the fixed-income weight is 18 after the horizon tilt (the 8 of the
  profile and the 10 of the tilt), and it is at least 18 when the normalization is reached.
\<close>

theorem short_aggressive_fixed_is_18:
  assumes "valid i" and "horizon i \<le> 3" and "risk i = Aggressive"
  shows "fixed (horizonTilt i (profiles (risk i))) = 18 \<and> 18 \<le> fixed (adjusted i)"
  using assms by (simp add: adjust_defs)

theorem short_aggressive_fixed_is_18_witness:
  "valid shortAggressive \<and> horizon shortAggressive \<le> 3 \<and> risk shortAggressive = Aggressive
    \<and> fixed (horizonTilt shortAggressive (profiles (risk shortAggressive))) = 18
    \<and> 18 \<le> fixed (adjusted shortAggressive)"
proof -
  have h: "horizon shortAggressive \<le> 3" and r: "risk shortAggressive = Aggressive"
    by (simp_all add: shortAggressive_def defaultInputs_def)
  from short_aggressive_fixed_is_18 [OF valid_shortAggressive h r] valid_shortAggressive h r
  show ?thesis by simp
qed

text \<open>
  C8. For every valid preferences record the returned list is in non-increasing order of
  \<open>pct\<close>.
\<close>

theorem rows_sorted_descending:
  assumes "valid i"
  shows "sorted_wrt (\<lambda>a b. pct a \<ge> pct b) (autoAllocate i)"
  unfolding autoAllocate_def by (rule sorted_sort_cmp)

theorem rows_sorted_descending_witness:
  "valid defaultInputs \<and> sorted_wrt (\<lambda>a b. pct a \<ge> pct b) (autoAllocate defaultInputs)"
  using rows_sorted_descending [OF valid_defaultInputs] valid_defaultInputs by simp

text \<open>
  C9, as the specification states it: for every valid preferences record the six category
  weights still sum to exactly 100 after each adjustment step, so the divisor of the
  normalization is always exactly 100. For the Moderate-Aggressive profile with a horizon
  of 2 years, crypto included and a cap of 0.01, lines 51-52 round twice (2 - 0.01, then
  60 plus that), and the sum of line 55 comes out one unit in the last place above 100:
  100.00000000000001.
\<close>

theorem divisor_not_exactly_100:
  "valid centiCap
    \<and> cryptoCapPct centiCap = 5764607523034235 / 2 ^ 59
    \<and> weightSumD (adjustedD centiCap) = 100 + 1 / 2 ^ 46
    \<and> weightSumD (adjustedD centiCap) \<noteq> 100"
  using valid_centiCap
  by (simp add: weightSumD_centiCap) (simp add: centiCap_def defaultInputs_def fl_centi)

text \<open>
  C9, amended: for every valid preferences record each adjustment step only moves weight
  from one category to another. In exact arithmetic the six category weights, summed as
  line 55 sums them, are exactly 100 after the horizon tilt, after the gold opt-out, after
  the crypto opt-out and after the crypto-cap clamp. In double arithmetic they are exactly
  100 after the horizon tilt, the gold opt-out and the crypto opt-out; after the
  crypto-cap clamp the sum of line 55, the divisor of the normalization, is within 1e-9 of
  100 and positive, so a total that is zero or negative is not reached.
\<close>

theorem adjustments_keep_total:
  assumes "valid i"
  shows "weightSum (horizonTilt i (profiles (risk i))) = 100
    \<and> weightSum (goldOptOut i (horizonTilt i (profiles (risk i)))) = 100
    \<and> weightSum (cryptoOptOut i (goldOptOut i (horizonTilt i (profiles (risk i))))) = 100
    \<and> weightSum
        (cryptoCap i (cryptoOptOut i (goldOptOut i (horizonTilt i (profiles (risk i)))))) = 100
    \<and> weightSum (adjusted i) = 100
    \<and> \<not> weightSum (adjusted i) \<le> 0
    \<and> weightSumD (horizonTiltD i (profiles (risk i))) = 100
    \<and> weightSumD (goldOptOutD i (horizonTiltD i (profiles (risk i)))) = 100
    \<and> weightSumD (cryptoOptOutD i (goldOptOutD i (horizonTiltD i (profiles (risk i))))) = 100
    \<and> \<bar>weightSumD (adjustedD i) - 100\<bar> \<le> 1 / 10 ^ 9
    \<and> 0 < weightSumD (adjustedD i)"
proof -
  have exact: "weightSum (horizonTilt i (profiles (risk i))) = 100
    \<and> weightSum (goldOptOut i (horizonTilt i (profiles (risk i)))) = 100
    \<and> weightSum (cryptoOptOut i (goldOptOut i (horizonTilt i (profiles (risk i))))) = 100
    \<and> weightSum
        (cryptoCap i (cryptoOptOut i (goldOptOut i (horizonTilt i (profiles (risk i)))))) = 100
    \<and> weightSum (adjusted i) = 100
    \<and> \<not> weightSum (adjusted i) \<le> 0"
    by (simp add: weightSum_adjusted weightSum_cryptoCap weightSum_cryptoOptOut
        weightSum_goldOptOut weightSum_horizonTilt weightSum_profiles)
  have doubles: "weightSumD (horizonTiltD i (profiles (risk i))) = 100
    \<and> weightSumD (goldOptOutD i (horizonTiltD i (profiles (risk i)))) = 100
    \<and> weightSumD (cryptoOptOutD i (goldOptOutD i (horizonTiltD i (profiles (risk i))))) = 100"
    by (simp add: weightSumD_tilt weightSumD_gold before_cap_exact weightSumD_before_cap)
  from exact doubles divisor_bound [OF assms] show ?thesis by blast
qed

theorem adjustments_keep_total_witness:
  "valid centiCap
    \<and> weightSum (horizonTilt centiCap (profiles (risk centiCap))) = 100
    \<and> weightSum (adjusted centiCap) = 100
    \<and> \<not> weightSum (adjusted centiCap) \<le> 0
    \<and> weightSumD (cryptoOptOutD centiCap (goldOptOutD centiCap
          (horizonTiltD centiCap (profiles (risk centiCap))))) = 100
    \<and> \<bar>weightSumD (adjustedD centiCap) - 100\<bar> \<le> 1 / 10 ^ 9
    \<and> 0 < weightSumD (adjustedD centiCap)"
  using adjustments_keep_total [OF valid_centiCap] valid_centiCap by simp

text \<open>
  C10. For every valid preferences record with the Conservative or the Moderate profile,
  no returned row has asset class Crypto, whether or not crypto is included: the crypto
  weight of these profiles is 0 and the clamp never raises it.
\<close>

theorem no_crypto_for_low_risk:
  assumes "valid i" and "risk i = Conservative \<or> risk i = Moderate"
  shows "\<forall>r \<in> set (autoAllocate i). assetClass r \<noteq> ''Crypto''"
proof (intro ballI notI)
  fix r assume r: "r \<in> set (autoAllocate i)" and c: "assetClass r = ''Crypto''"
  from c have "r \<noteq> consolidatedRow (tinyTotal i)" by (auto simp: consolidatedRow_def)
  with r have "r \<in> set (buildRows i (adjusted i))"
    by (simp add: in_autoAllocate rawRows_adjusted)
  from buildRows_Crypto [OF this c] have "0 < crypto (adjusted i)" by simp
  moreover have "crypto (adjusted i) = 0"
    using assms by (auto simp: crypto_adjusted valid_def)
  ultimately show False by simp
qed

theorem no_crypto_for_low_risk_witness:
  "valid moderateCrypto \<and> risk moderateCrypto = Moderate \<and> includeCrypto moderateCrypto
    \<and> list_all (\<lambda>r. assetClass r \<noteq> ''Crypto'') (autoAllocate moderateCrypto)"
proof -
  have m: "risk moderateCrypto = Moderate" and c: "includeCrypto moderateCrypto"
    by (simp_all add: moderateCrypto_def defaultInputs_def)
  from m have "risk moderateCrypto = Conservative \<or> risk moderateCrypto = Moderate" by simp
  from no_crypto_for_low_risk [OF valid_moderateCrypto this] valid_moderateCrypto m c
  show ?thesis by (simp add: list_all_iff)
qed

end
